theory Spec2Isabelle
  imports Main "HOL-Library.Word"
begin

section \<open>JavaScript values read by the handlers\<close>

text \<open>
  A JavaScript string is a sequence of UTF-16 code units; \<open>length\<close> and the regular
  expressions of the auth server count code units. \<open>js\<close> writes an ASCII literal.
\<close>

type_synonym code_unit = "16 word"
type_synonym jsstring = "code_unit list"

definition js :: "string \<Rightarrow> jsstring" where
  "js s = map (\<lambda>c. of_nat (of_char c)) s"

text \<open>
  The fields the handlers read from \<open>req.body\<close> are modelled as absent
  (\<open>undefined\<close>, \<open>None\<close>) or a string. \<open>isAdmin\<close> is never handed to a
  library that inspects it, so it ranges over a small datatype of JavaScript values.
\<close>

datatype jsval = JUndefined | JNull | JBool bool | JNum int | JStr jsstring

fun truthy :: "jsval \<Rightarrow> bool" where
  "truthy JUndefined = False"
| "truthy JNull = False"
| "truthy (JBool b) = b"
| "truthy (JNum n) = (n \<noteq> 0)"
| "truthy (JStr s) = (s \<noteq> [])"

text \<open>\<open>a || b\<close>\<close>

definition js_or :: "jsval \<Rightarrow> jsval \<Rightarrow> jsval" where
  "js_or a b = (if truthy a then a else b)"

text \<open>\<open>String(x)\<close> for a string or \<open>undefined\<close>, as \<open>RegExp.prototype.test\<close> applies it.\<close>

definition ToString :: "jsstring option \<Rightarrow> jsstring" where
  "ToString x = (case x of None \<Rightarrow> js ''undefined'' | Some s \<Rightarrow> s)"

section \<open>The two validation patterns of \<open>POST /register\<close>\<close>

definition is_digit :: "code_unit \<Rightarrow> bool" where
  "is_digit c = (0x30 \<le> c \<and> c \<le> 0x39)"

definition is_lower :: "code_unit \<Rightarrow> bool" where
  "is_lower c = (0x61 \<le> c \<and> c \<le> 0x7A)"

definition is_upper :: "code_unit \<Rightarrow> bool" where
  "is_upper c = (0x41 \<le> c \<and> c \<le> 0x5A)"

text \<open>The class \<open>[a-zA-Z0-9_]\<close>.\<close>

definition name_char :: "code_unit \<Rightarrow> bool" where
  "name_char c = (is_lower c \<or> is_upper c \<or> is_digit c \<or> c = 0x5F)"

text \<open>
  \<open>.\<close> without the \<open>s\<close> flag matches any code unit except the line terminators
  LF, CR, U+2028 and U+2029.
\<close>

definition dot :: "code_unit \<Rightarrow> bool" where
  "dot c = (c \<noteq> 0x0A \<and> c \<noteq> 0x0D \<and> c \<noteq> 0x2028 \<and> c \<noteq> 0x2029)"

text \<open>\<open>/^[a-zA-Z0-9_]{3,20}$/.test(x)\<close>\<close>

definition usernameRegex_test :: "jsstring option \<Rightarrow> bool" where
  "usernameRegex_test x =
     (let s = ToString x in 3 \<le> length s \<and> length s \<le> 20 \<and> list_all name_char s)"

text \<open>
  \<open>/^(?=.*\d)(?=.*[a-z])(?=.*[A-Z]).{8,}$/.test(x)\<close>: each lookahead asks for a
  character of its class after a run of \<open>.\<close> from the start; \<open>.{8,}$\<close> asks that the
  whole input be at least eight \<open>.\<close>.
\<close>

definition lookahead :: "(code_unit \<Rightarrow> bool) \<Rightarrow> jsstring \<Rightarrow> bool" where
  "lookahead P s = (list_ex P (takeWhile dot s) \<or>
     (case dropWhile dot s of [] \<Rightarrow> False | c # _ \<Rightarrow> P c))"

definition passwordRegex_test :: "jsstring option \<Rightarrow> bool" where
  "passwordRegex_test x =
     (let s = ToString x in
        lookahead is_digit s \<and> lookahead is_lower s \<and> lookahead is_upper s \<and>
        8 \<le> length s \<and> list_all dot s)"

section \<open>The jsonwebtoken library\<close>

text \<open>
  A token string is modelled symbolically: \<open>Signed p k\<close> is the compact serialisation
  of payload \<open>p\<close> with the HMAC signature made with secret \<open>k\<close>; \<open>Opaque s\<close> is any
  other string \<open>s\<close> (not the serialisation of a token). Two signed tokens are the same
  string exactly when payload and secret agree, the usual idealisation of a MAC.
  Times are milliseconds as \<open>Date.now()\<close> returns them; \<open>iat\<close> and \<open>exp\<close> are seconds.
\<close>

record payload =
  p_userId :: "nat option"
  p_name :: "jsstring option"
  p_isAdmin :: jsval
  p_iat :: nat
  p_exp :: "nat option"

datatype token = Signed payload jsstring | Opaque jsstring

datatype jwt_error = JsonWebTokenError | TokenExpiredError

text \<open>\<open>jwt.sign(claims, secret, {expiresIn})\<close>, \<open>expiresIn\<close> in seconds.\<close>

definition jwt_sign :: "nat option \<Rightarrow> jsstring option \<Rightarrow> jsval \<Rightarrow> jsstring \<Rightarrow> nat \<Rightarrow> nat \<Rightarrow> token" where
  "jwt_sign uid nm adm secret expiresIn now =
     Signed \<lparr>p_userId = uid, p_name = nm, p_isAdmin = adm,
             p_iat = now div 1000, p_exp = Some (now div 1000 + expiresIn)\<rparr> secret"

text \<open>
  \<open>jwt.verify(token, secret, callback)\<close>: a malformed token and a wrong signature give
  \<open>JsonWebTokenError\<close>; the expiry is looked at only after the signature, and the token
  is expired when the clock (in seconds) has reached \<open>exp\<close>.
\<close>

fun jwt_verify :: "token \<Rightarrow> jsstring \<Rightarrow> nat \<Rightarrow> jwt_error + payload" where
  "jwt_verify (Opaque s) secret now = Inl JsonWebTokenError"
| "jwt_verify (Signed p k) secret now =
     (if k \<noteq> secret then Inl JsonWebTokenError
      else case p_exp p of
             None \<Rightarrow> Inr p
           | Some e \<Rightarrow> if e \<le> now div 1000 then Inl TokenExpiredError else Inr p)"

text \<open>\<open>jwt.decode(token)\<close>: the payload, read without any check.\<close>

fun jwt_decode :: "token \<Rightarrow> payload option" where
  "jwt_decode (Opaque s) = None"
| "jwt_decode (Signed p k) = Some p"

text \<open>The two ways a well-formed token fails, as the claims name them.\<close>

fun jwt_signature_valid :: "token \<Rightarrow> jsstring \<Rightarrow> bool" where
  "jwt_signature_valid (Opaque s) secret = False"
| "jwt_signature_valid (Signed p k) secret = (k = secret)"

fun jwt_expired :: "token \<Rightarrow> nat \<Rightarrow> bool" where
  "jwt_expired (Opaque s) now = False"
| "jwt_expired (Signed p k) now = (case p_exp p of None \<Rightarrow> False | Some e \<Rightarrow> e \<le> now div 1000)"

text \<open>\<open>!token\<close> is false exactly for a non-empty string.\<close>

fun token_truthy :: "token option \<Rightarrow> bool" where
  "token_truthy None = False"
| "token_truthy (Some (Opaque s)) = (s \<noteq> [])"
| "token_truthy (Some (Signed p k)) = True"

section \<open>The bcrypt library\<close>

text \<open>
  The hash function itself is a parameter. \<open>bcrypt.hash\<close> returns a modular-crypt
  string, which starts with \<open>$2\<close>; \<open>bcrypt.hash\<close> and \<open>bcrypt.compare\<close> reject when
  their data argument is \<open>undefined\<close>. \<open>work\<close> records the calls a handler makes.
\<close>

record bcrypt =
  bc_crypt :: "jsstring \<Rightarrow> nat \<Rightarrow> nat \<Rightarrow> jsstring"
  bc_compare :: "jsstring \<Rightarrow> jsstring \<Rightarrow> bool"

datatype work = BcryptHash "jsstring option" nat | BcryptCompare "jsstring option" jsstring

definition bcrypt_hash :: "bcrypt \<Rightarrow> jsstring option \<Rightarrow> nat \<Rightarrow> nat \<Rightarrow> unit + jsstring" where
  "bcrypt_hash B data rounds salt =
     (case data of None \<Rightarrow> Inl () | Some p \<Rightarrow> Inr (js ''$2'' @ bc_crypt B p rounds salt))"

definition bcrypt_compare :: "bcrypt \<Rightarrow> jsstring option \<Rightarrow> jsstring \<Rightarrow> unit + bool" where
  "bcrypt_compare B data hash =
     (case data of None \<Rightarrow> Inl () | Some p \<Rightarrow> Inr (bc_compare B p hash))"

section \<open>The collections\<close>

text \<open>
  \<open>userSchema\<close> declares \<open>name\<close>, \<open>password\<close> and \<open>createdAt\<close>; a stored user has
  these and its \<open>_id\<close>.
\<close>

record user =
  u_id :: nat
  name :: jsstring
  password :: jsstring
  createdAt :: nat

text \<open>
  Modelled from the spec: the RefreshToken schema (\<open>models/RefreshToken\<close>) is not among
  the sources. A row holds the owning user id and the expiry timestamp and is found by
  its token string, which is unique: the collection is a map from token strings to rows,
  and saving a token string that is already there fails.
\<close>

record refresh_token =
  userId :: nat
  expiresAt :: nat

record db =
  users :: "user list"
  refreshTokens :: "token \<rightharpoonup> refresh_token"

datatype db_error = ValidationError | DuplicateKey

text \<open>
  \<open>new User({name, password, isAdmin})\<close>: the schema is strict, so a key it does not
  declare (\<open>isAdmin\<close>) is dropped; \<open>_id\<close> is generated and \<open>createdAt\<close> defaults to now.
\<close>

record user_doc =
  doc_id :: nat
  doc_name :: "jsstring option"
  doc_password :: jsstring
  doc_createdAt :: nat

text \<open>A generated ObjectId is one no stored user has.\<close>

definition new_ObjectId :: "db \<Rightarrow> nat" where
  "new_ObjectId d = Suc (fold max (map u_id (users d)) 0)"

definition new_User :: "db \<Rightarrow> nat \<Rightarrow> jsstring option \<Rightarrow> jsstring \<Rightarrow> jsval \<Rightarrow> user_doc" where
  "new_User d now nm pw adm =
     \<lparr>doc_id = new_ObjectId d, doc_name = nm, doc_password = pw, doc_createdAt = now\<rparr>"

text \<open>
  \<open>doc.save()\<close>: the validators of the schema (\<open>required\<close>, \<open>minlength: 3\<close>,
  \<open>maxlength: 30\<close> on \<open>name\<close>; \<open>required\<close> on \<open>password\<close>), then the insert, which
  the unique index on \<open>name\<close> refuses for a name already stored.
\<close>

definition User_save :: "db \<Rightarrow> user_doc \<Rightarrow> db_error + db" where
  "User_save d doc =
     (case doc_name doc of
        None \<Rightarrow> Inl ValidationError
      | Some n \<Rightarrow>
          if n = [] \<or> length n < 3 \<or> 30 < length n \<or> doc_password doc = []
          then Inl ValidationError
          else if n \<in> set (map name (users d)) then Inl DuplicateKey
          else Inr (d\<lparr>users := users d @
                 [\<lparr>u_id = doc_id doc, name = n, password = doc_password doc,
                   createdAt = doc_createdAt doc\<rparr>]\<rparr>))"

text \<open>
  \<open>User.findOne({name: x})\<close>: the first user of that name; for \<open>undefined\<close> the
  filter matches a user without a name, and there is none.
\<close>

definition User_findOne :: "db \<Rightarrow> jsstring option \<Rightarrow> user option" where
  "User_findOne d x =
     (case x of None \<Rightarrow> None | Some n \<Rightarrow> find (\<lambda>u. name u = n) (users d))"

definition User_findById :: "db \<Rightarrow> nat option \<Rightarrow> user option" where
  "User_findById d x =
     (case x of None \<Rightarrow> None | Some i \<Rightarrow> find (\<lambda>u. u_id u = i) (users d))"

text \<open>A document of \<open>userSchema\<close> has no \<open>isAdmin\<close> path: \<open>user.isAdmin\<close> is \<open>undefined\<close>.\<close>

definition user_isAdmin :: "user \<Rightarrow> jsval" where
  "user_isAdmin u = JUndefined"

definition RefreshToken_findOne :: "db \<Rightarrow> token \<Rightarrow> refresh_token option" where
  "RefreshToken_findOne d t = refreshTokens d t"

text \<open>\<open>RefreshToken.deleteOne({token: x})\<close>; for \<open>undefined\<close> no row matches.\<close>

definition RefreshToken_deleteOne :: "db \<Rightarrow> token option \<Rightarrow> db" where
  "RefreshToken_deleteOne d x =
     (case x of None \<Rightarrow> d | Some t \<Rightarrow> d\<lparr>refreshTokens := (refreshTokens d)(t := None)\<rparr>)"

definition RefreshToken_save :: "db \<Rightarrow> token \<Rightarrow> refresh_token \<Rightarrow> db_error + db" where
  "RefreshToken_save d t row =
     (if refreshTokens d t \<noteq> None then Inl DuplicateKey
      else Inr (d\<lparr>refreshTokens := (refreshTokens d)(t \<mapsto> row)\<rparr>))"

text \<open>\<open>RefreshTokenStore.exists(token)\<close>\<close>

definition exists_token :: "db \<Rightarrow> token \<Rightarrow> bool" where
  "exists_token d t = (RefreshToken_findOne d t \<noteq> None)"

section \<open>Requests and responses\<close>

record config =
  ACCESS_TOKEN_SECRET :: jsstring
  REFRESH_TOKEN_SECRET :: jsstring

text \<open>\<open>req.body\<close>, the keys the auth server reads.\<close>

record body =
  body_name :: "jsstring option"
  body_password :: "jsstring option"
  body_isAdmin :: jsval
  body_token :: "token option"

text \<open>
  What a handler sends: \<open>res.sendStatus(n)\<close> (the status with its reason phrase as the
  body) or \<open>res.status(n).json(...)\<close>, one constructor for each shape of object.
\<close>

datatype sent =
    StatusText
  | Error string
  | UserCreated string nat "jsstring option"
  | LoggedIn token token nat jsstring jsval
  | NewAccessToken token

record response =
  status :: nat
  sent :: sent

definition sendStatus :: "nat \<Rightarrow> response" where
  "sendStatus n = \<lparr>status = n, sent = StatusText\<rparr>"

definition json :: "nat \<Rightarrow> sent \<Rightarrow> response" where
  "json n b = \<lparr>status = n, sent = b\<rparr>"

text \<open>The outcome of a handler: the response, the collections afterwards, the bcrypt calls made.\<close>

record outcome =
  res :: response
  store :: db
  work :: "work list"

definition reply :: "response \<Rightarrow> db \<Rightarrow> work list \<Rightarrow> outcome" where
  "reply r d w = \<lparr>res = r, store = d, work = w\<rparr>"

section \<open>The auth server\<close>

text \<open>
  Each handler is a function of the request body, the clock and the collections, run to
  completion on its own. The rate limiter mounted in front of register and login is a
  separate middleware and is not part of the handlers; the collections answer every
  call, so the only failures are those the schemas and indexes produce.
\<close>

text \<open>\<open>generateAccessToken(user)\<close>, \<open>expiresIn: '15m'\<close>.\<close>

definition generateAccessToken :: "config \<Rightarrow> nat \<Rightarrow> user \<Rightarrow> token" where
  "generateAccessToken cfg now user =
     jwt_sign (Some (u_id user)) (Some (name user)) (js_or (user_isAdmin user) (JBool False))
       (ACCESS_TOKEN_SECRET cfg) (15 * 60) now"

text \<open>\<open>app.post('/token')\<close>\<close>

definition post_token :: "config \<Rightarrow> nat \<Rightarrow> db \<Rightarrow> body \<Rightarrow> outcome" where
  "post_token cfg now d b =
     (let refreshToken = body_token b in
      if \<not> token_truthy refreshToken then reply (sendStatus 401) d []
      else case refreshToken of
        None \<Rightarrow> reply (sendStatus 401) d []
      | Some t \<Rightarrow>
         (case RefreshToken_findOne d t of
            None \<Rightarrow> reply (sendStatus 403) d []
          | Some storedToken \<Rightarrow>
             (case jwt_verify t (REFRESH_TOKEN_SECRET cfg) now of
                Inl err \<Rightarrow> reply (sendStatus 403) (RefreshToken_deleteOne d refreshToken) []
              | Inr decoded \<Rightarrow>
                 (case User_findById d (p_userId decoded) of
                    None \<Rightarrow> reply (sendStatus 404) d []
                  | Some user \<Rightarrow>
                      reply (json 200 (NewAccessToken (generateAccessToken cfg now user))) d []))))"

text \<open>\<open>app.post('/register')\<close>; \<open>salt\<close> is the randomness bcrypt draws.\<close>

definition post_register :: "bcrypt \<Rightarrow> nat \<Rightarrow> nat \<Rightarrow> db \<Rightarrow> body \<Rightarrow> outcome" where
  "post_register B now salt d b =
     (if \<not> usernameRegex_test (body_name b) then
        reply (json 400 (Error ''Username must be 3-20 characters (letters, numbers, underscores)'')) d []
      else if \<not> passwordRegex_test (body_password b) then
        reply (json 400 (Error ''Password must contain: 8+ chars, 1 uppercase, 1 lowercase, 1 number'')) d []
      else case User_findOne d (body_name b) of
        Some existingUser \<Rightarrow> reply (json 409 (Error ''Username already exists'')) d []
      | None \<Rightarrow>
         (case bcrypt_hash B (body_password b) 10 salt of
            Inl err \<Rightarrow>
              reply (json 500 (Error ''Server error during registration'')) d
                [BcryptHash (body_password b) 10]
          | Inr hashedPassword \<Rightarrow>
             (let newUser = new_User d now (body_name b) hashedPassword
                              (js_or (body_isAdmin b) (JBool False))
              in case User_save d newUser of
                   Inl err \<Rightarrow>
                     reply (json 500 (Error ''Server error during registration'')) d
                       [BcryptHash (body_password b) 10]
                 | Inr d' \<Rightarrow>
                     reply (json 201 (UserCreated ''User created successfully''
                                        (doc_id newUser) (doc_name newUser)))
                       d' [BcryptHash (body_password b) 10])))"

text \<open>The constant of the branch for an unknown user.\<close>

definition dummy_hash :: jsstring where
  "dummy_hash = js ''$2b$10$dummyhashdummyhashdummyha''"

text \<open>\<open>app.post('/login')\<close>, \<open>expiresIn: '7d'\<close>.\<close>

definition post_login :: "bcrypt \<Rightarrow> config \<Rightarrow> nat \<Rightarrow> db \<Rightarrow> body \<Rightarrow> outcome" where
  "post_login B cfg now d b =
     (case User_findOne d (body_name b) of
        None \<Rightarrow>
          reply (json 401 (Error ''Invalid credentials'')) d
            [BcryptCompare (Some (js ''dummy'')) dummy_hash]
      | Some user \<Rightarrow>
         (case bcrypt_compare B (body_password b) (password user) of
            Inl err \<Rightarrow>
              reply (json 500 (Error ''Server error during login'')) d
                [BcryptCompare (body_password b) (password user)]
          | Inr validPassword \<Rightarrow>
              if \<not> validPassword then
                reply (json 401 (Error ''Invalid credentials'')) d
                  [BcryptCompare (body_password b) (password user)]
              else
                (let accessToken = generateAccessToken cfg now user;
                     refreshToken = jwt_sign (Some (u_id user)) None JUndefined
                                      (REFRESH_TOKEN_SECRET cfg) (7 * 24 * 60 * 60) now
                 in case RefreshToken_save d refreshToken
                           \<lparr>userId = u_id user, expiresAt = now + 7 * 24 * 60 * 60 * 1000\<rparr> of
                      Inl err \<Rightarrow>
                        reply (json 500 (Error ''Server error during login'')) d
                          [BcryptCompare (body_password b) (password user)]
                    | Inr d' \<Rightarrow>
                        reply (json 200 (LoggedIn accessToken refreshToken (u_id user) (name user)
                                           (js_or (user_isAdmin user) (JBool False))))
                          d' [BcryptCompare (body_password b) (password user)])))"

text \<open>\<open>app.delete('/logout')\<close>\<close>

definition delete_logout :: "db \<Rightarrow> body \<Rightarrow> outcome" where
  "delete_logout d b = reply (sendStatus 204) (RefreshToken_deleteOne d (body_token b)) []"

section \<open>The resource server's guard\<close>

text \<open>
  \<open>req.headers['authorization']\<close> is absent or a string; the string is held as the list
  of pieces that \<open>split(' ')\<close> returns, each piece a token string.
\<close>

record request =
  authorization :: "token list option"

record req_user =
  ru_userId :: "nat option"
  ru_name :: "jsstring option"
  ru_isAdmin :: jsval

datatype guard = Respond response | Next req_user

text \<open>\<open>authHeader && authHeader.split(' ')[1]\<close>\<close>

definition bearer :: "request \<Rightarrow> token option" where
  "bearer req =
     (case authorization req of
        None \<Rightarrow> None
      | Some pieces \<Rightarrow> if 1 < length pieces then Some (pieces ! 1) else None)"

text \<open>\<open>authenticateToken(req, res, next)\<close>\<close>

definition authenticateToken :: "config \<Rightarrow> nat \<Rightarrow> request \<Rightarrow> guard" where
  "authenticateToken cfg now req =
     (let token = bearer req in
      if \<not> token_truthy token then Respond (json 401 (Error ''Missing authentication token''))
      else case token of
        None \<Rightarrow> Respond (json 401 (Error ''Missing authentication token''))
      | Some t \<Rightarrow>
         (case jwt_verify t (ACCESS_TOKEN_SECRET cfg) now of
            Inl err \<Rightarrow>
              if err = TokenExpiredError then Respond (json 401 (Error ''Token expired''))
              else Respond (json 403 (Error ''Invalid token''))
          | Inr decoded \<Rightarrow>
              Next \<lparr>ru_userId = p_userId decoded, ru_name = p_name decoded,
                    ru_isAdmin = js_or (p_isAdmin decoded) (JBool False)\<rparr>))"

section \<open>The validation rules in the words of the specification\<close>

text \<open>3 to 20 characters, letters, digits and underscore only.\<close>

definition spec_username_ok :: "jsstring \<Rightarrow> bool" where
  "spec_username_ok s =
     (3 \<le> length s \<and> length s \<le> 20 \<and>
      (\<forall>c \<in> set s. is_lower c \<or> is_upper c \<or> is_digit c \<or> c = 0x5F))"

text \<open>At least 8 characters, with an uppercase letter, a lowercase letter and a digit.\<close>

definition spec_password_ok :: "jsstring \<Rightarrow> bool" where
  "spec_password_ok s =
     (8 \<le> length s \<and> (\<exists>c \<in> set s. is_upper c) \<and> (\<exists>c \<in> set s. is_lower c) \<and>
      (\<exists>c \<in> set s. is_digit c))"

section \<open>A concrete run\<close>

text \<open>
  An instance of the bcrypt parameter, two secrets, and the scenario of the
  specification: alice registers (asking for the admin flag), logs in, refreshes.
\<close>

definition toy_bcrypt :: bcrypt where
  "toy_bcrypt = \<lparr>bc_crypt = (\<lambda>p rounds salt. js ''b$10$'' @ p),
                  bc_compare = (\<lambda>p h. h = js ''$2b$10$'' @ p)\<rparr>"

definition cfg0 :: config where
  "cfg0 = \<lparr>ACCESS_TOKEN_SECRET = js ''access'', REFRESH_TOKEN_SECRET = js ''refresh''\<rparr>"

definition db0 :: db where
  "db0 = \<lparr>users = [], refreshTokens = Map.empty\<rparr>"

definition alice :: body where
  "alice = \<lparr>body_name = Some (js ''alice_01''), body_password = Some (js ''Passw0rd!''),
            body_isAdmin = JBool True, body_token = None\<rparr>"

definition alice_user :: user where
  "alice_user = \<lparr>u_id = 1, name = js ''alice_01'', password = js ''$2b$10$Passw0rd!'',
                 createdAt = 1000\<rparr>"

definition db1 :: db where
  "db1 = \<lparr>users = [alice_user], refreshTokens = Map.empty\<rparr>"

text \<open>The refresh token a login of alice at time 5000 ms signs, and the store holding it.\<close>

definition alice_refresh :: token where
  "alice_refresh = Signed \<lparr>p_userId = Some 1, p_name = None, p_isAdmin = JUndefined,
                            p_iat = 5, p_exp = Some 604805\<rparr> (js ''refresh'')"

definition alice_access :: token where
  "alice_access = Signed \<lparr>p_userId = Some 1, p_name = Some (js ''alice_01''),
                           p_isAdmin = JBool False, p_iat = 5, p_exp = Some 905\<rparr> (js ''access'')"

definition db2 :: db where
  "db2 = \<lparr>users = [alice_user],
          refreshTokens = [alice_refresh \<mapsto> \<lparr>userId = 1, expiresAt = 604805000\<rparr>]\<rparr>"

definition with_token :: "token \<Rightarrow> body" where
  "with_token t = \<lparr>body_name = None, body_password = None, body_isAdmin = JUndefined,
                   body_token = Some t\<rparr>"

text \<open>A store holding alice's refresh token after the user is gone.\<close>

definition db3 :: db where
  "db3 = \<lparr>users = [],
          refreshTokens = [alice_refresh \<mapsto> \<lparr>userId = 1, expiresAt = 604805000\<rparr>]\<rparr>"

text \<open>A token with alice's claims signed with another secret, and a store holding it.\<close>

definition forged :: token where
  "forged = Signed \<lparr>p_userId = Some 1, p_name = None, p_isAdmin = JUndefined,
                     p_iat = 5, p_exp = Some 604805\<rparr> (js ''guess'')"

definition db4 :: db where
  "db4 = \<lparr>users = [alice_user],
          refreshTokens = [forged \<mapsto> \<lparr>userId = 1, expiresAt = 604805000\<rparr>]\<rparr>"

definition bob :: body where
  "bob = \<lparr>body_name = Some (js ''bob_2''), body_password = Some (js ''Passw0rd!''),
          body_isAdmin = JUndefined, body_token = None\<rparr>"

definition alice_wrong :: body where
  "alice_wrong = \<lparr>body_name = Some (js ''alice_01''), body_password = Some (js ''Passw0rd?''),
                  body_isAdmin = JUndefined, body_token = None\<rparr>"


definition no_name :: body where
  "no_name = \<lparr>body_name = None, body_password = Some (js ''Passw0rd1''),
              body_isAdmin = JUndefined, body_token = None\<rparr>"

text \<open>Requests to the resource server: no header, and \<open>Bearer\<close> followed by a token.\<close>

definition no_header :: request where
  "no_header = \<lparr>authorization = None\<rparr>"

definition bearer_header :: "token \<Rightarrow> request" where
  "bearer_header t = \<lparr>authorization = Some [Opaque (js ''Bearer''), t]\<rparr>"

section \<open>Unfolding the model\<close>

lemmas regex_defs = usernameRegex_test_def passwordRegex_test_def ToString_def js_def lookahead_def
  dot_def name_char_def is_lower_def is_upper_def is_digit_def

lemmas store_defs = User_findOne_def User_findById_def User_save_def new_User_def new_ObjectId_def
  RefreshToken_findOne_def RefreshToken_save_def RefreshToken_deleteOne_def exists_token_def
  user_isAdmin_def

lemmas handler_defs = post_register_def post_login_def post_token_def delete_logout_def
  authenticateToken_def bearer_def generateAccessToken_def jwt_sign_def js_or_def reply_def json_def
  sendStatus_def bcrypt_hash_def bcrypt_compare_def Let_def

lemmas run_defs = toy_bcrypt_def cfg0_def db0_def db1_def db2_def alice_def alice_user_def
  alice_refresh_def alice_access_def with_token_def

section \<open>Verification of a token\<close>

lemma jwt_verify_invalid:
  "\<not> jwt_signature_valid t secret \<Longrightarrow> jwt_verify t secret now = Inl JsonWebTokenError"
  by (cases t) simp_all

lemma jwt_verify_expired:
  "jwt_signature_valid t secret \<Longrightarrow> jwt_expired t now \<Longrightarrow>
   jwt_verify t secret now = Inl TokenExpiredError"
  by (cases t) (auto split: option.splits)

lemma jwt_verify_valid:
  "jwt_signature_valid t secret \<Longrightarrow> \<not> jwt_expired t now \<Longrightarrow>
   \<exists>p. jwt_decode t = Some p \<and> jwt_verify t secret now = Inr p"
  by (cases t) (auto split: option.splits)

lemma jwt_verify_Inr:
  "jwt_verify t secret now = Inr p \<Longrightarrow>
   jwt_signature_valid t secret \<and> \<not> jwt_expired t now \<and> jwt_decode t = Some p"
  by (cases t) (auto split: option.splits if_splits)

lemma signed_truthy: "jwt_signature_valid t secret \<Longrightarrow> token_truthy (Some t)"
  by (cases t) simp_all

section \<open>The branches of the refresh handler\<close>

lemma post_token_missing:
  "\<not> token_truthy (body_token b) \<Longrightarrow> post_token cfg now d b = reply (sendStatus 401) d []"
  by (simp add: post_token_def)

lemma post_token_unknown:
  "body_token b = Some t \<Longrightarrow> token_truthy (Some t) \<Longrightarrow> \<not> exists_token d t \<Longrightarrow>
   post_token cfg now d b = reply (sendStatus 403) d []"
  by (simp add: post_token_def exists_token_def)

lemma post_token_rejected:
  "body_token b = Some t \<Longrightarrow> token_truthy (Some t) \<Longrightarrow> exists_token d t \<Longrightarrow>
   jwt_verify t (REFRESH_TOKEN_SECRET cfg) now = Inl e \<Longrightarrow>
   post_token cfg now d b =
     reply (sendStatus 403) (d\<lparr>refreshTokens := (refreshTokens d)(t := None)\<rparr>) []"
  by (auto simp: post_token_def exists_token_def RefreshToken_deleteOne_def)

lemma post_token_user_gone:
  "body_token b = Some t \<Longrightarrow> token_truthy (Some t) \<Longrightarrow> exists_token d t \<Longrightarrow>
   jwt_verify t (REFRESH_TOKEN_SECRET cfg) now = Inr p \<Longrightarrow>
   User_findById d (p_userId p) = None \<Longrightarrow>
   post_token cfg now d b = reply (sendStatus 404) d []"
  by (auto simp: post_token_def exists_token_def)

lemma post_token_issued:
  "body_token b = Some t \<Longrightarrow> token_truthy (Some t) \<Longrightarrow> exists_token d t \<Longrightarrow>
   jwt_verify t (REFRESH_TOKEN_SECRET cfg) now = Inr p \<Longrightarrow>
   User_findById d (p_userId p) = Some u \<Longrightarrow>
   post_token cfg now d b =
     reply (json 200 (NewAccessToken (generateAccessToken cfg now u))) d []"
  by (auto simp: post_token_def exists_token_def)

lemma reply_sel [simp]:
  "res (reply r d w) = r" "store (reply r d w) = d" "work (reply r d w) = w"
  by (simp_all add: reply_def)

lemma status_sel [simp]: "status (sendStatus n) = n" "status (json n x) = n" "sent (json n x) = x"
  by (simp_all add: sendStatus_def json_def)

section \<open>Refresh and logout\<close>

text \<open>
  C1 as stated does not hold. It gives three outcomes for the refresh operation: 401
  without a token string, 404 for a token that verifies against the refresh secret when
  no user has the id of its claims, 200 otherwise. The handler first looks the token
  string up in the store: alice's refresh token verifies and no user has its id, but on
  a store that does not hold it the response is 403.
\<close>

theorem post_token_unknown_token_counterexample:
  "jwt_verify alice_refresh (REFRESH_TOKEN_SECRET cfg0) 9000 =
     Inr \<lparr>p_userId = Some 1, p_name = None, p_isAdmin = JUndefined, p_iat = 5, p_exp = Some 604805\<rparr> \<and>
   User_findById db0 (Some 1) = None \<and>
   status (res (post_token cfg0 9000 db0 (with_token alice_refresh))) = 403"
  by (simp add: regex_defs store_defs handler_defs run_defs)

text \<open>
  C1, amended: without a token string in the body the response is 401. For a token
  string that exists in the store and verifies against the refresh secret: when no user
  has the id of its claims the response is 404; otherwise the response is 200 and carries
  exactly a new access token for that user, the store is left as it was (the refresh
  token is not rotated and its row stays), and the same request at any later time before
  the token's expiry is answered 200 again.
\<close>

theorem post_token_contract:
  "(\<not> token_truthy (body_token b) \<longrightarrow>
      res (post_token cfg now d b) = sendStatus 401 \<and> store (post_token cfg now d b) = d) \<and>
   (\<forall>t p. body_token b = Some t \<and> exists_token d t \<and>
           jwt_verify t (REFRESH_TOKEN_SECRET cfg) now = Inr p \<longrightarrow>
      (User_findById d (p_userId p) = None \<longrightarrow>
         res (post_token cfg now d b) = sendStatus 404 \<and> store (post_token cfg now d b) = d) \<and>
      (\<forall>u. User_findById d (p_userId p) = Some u \<longrightarrow>
         res (post_token cfg now d b) = json 200 (NewAccessToken (generateAccessToken cfg now u)) \<and>
         store (post_token cfg now d b) = d \<and>
         (\<forall>later. \<not> jwt_expired t later \<longrightarrow>
            res (post_token cfg later (store (post_token cfg now d b)) b) =
              json 200 (NewAccessToken (generateAccessToken cfg later u)))))"
proof (intro conjI allI impI)
  assume "\<not> token_truthy (body_token b)"
  then show "res (post_token cfg now d b) = sendStatus 401" "store (post_token cfg now d b) = d"
    by (simp_all add: post_token_missing)
next
  fix t p
  assume h0: "body_token b = Some t \<and> exists_token d t \<and>
              jwt_verify t (REFRESH_TOKEN_SECRET cfg) now = Inr p"
  then have sig: "jwt_signature_valid t (REFRESH_TOKEN_SECRET cfg)" and dec: "jwt_decode t = Some p"
    using jwt_verify_Inr by blast+
  from sig have "token_truthy (Some t)"
    by (rule signed_truthy)
  with h0 have h: "body_token b = Some t \<and> token_truthy (Some t) \<and> exists_token d t \<and>
             jwt_verify t (REFRESH_TOKEN_SECRET cfg) now = Inr p"
    by simp
  {
    assume "User_findById d (p_userId p) = None"
    with h show "res (post_token cfg now d b) = sendStatus 404" "store (post_token cfg now d b) = d"
      by (simp_all add: post_token_user_gone)
  }
  fix u
  assume u: "User_findById d (p_userId p) = Some u"
  with h have ok: "post_token cfg now d b =
      reply (json 200 (NewAccessToken (generateAccessToken cfg now u))) d []"
    by (simp add: post_token_issued)
  then show "res (post_token cfg now d b) = json 200 (NewAccessToken (generateAccessToken cfg now u))"
    and "store (post_token cfg now d b) = d"
    by simp_all
  fix later
  assume "\<not> jwt_expired t later"
  with sig dec have "jwt_verify t (REFRESH_TOKEN_SECRET cfg) later = Inr p"
    using jwt_verify_valid by fastforce
  with h u have "post_token cfg later d b =
      reply (json 200 (NewAccessToken (generateAccessToken cfg later u))) d []"
    by (simp add: post_token_issued)
  with ok show "res (post_token cfg later (store (post_token cfg now d b)) b) =
      json 200 (NewAccessToken (generateAccessToken cfg later u))"
    by simp
qed


theorem post_token_contract_witness:
  "\<not> token_truthy (body_token alice) \<and>
   res (post_token cfg0 9000 db2 alice) = sendStatus 401 \<and>
   exists_token db3 alice_refresh \<and>
   res (post_token cfg0 9000 db3 (with_token alice_refresh)) = sendStatus 404 \<and>
   exists_token db2 alice_refresh \<and> \<not> jwt_expired alice_refresh 600000000 \<and>
   res (post_token cfg0 9000 db2 (with_token alice_refresh)) =
     json 200 (NewAccessToken (generateAccessToken cfg0 9000 alice_user)) \<and>
   store (post_token cfg0 9000 db2 (with_token alice_refresh)) = db2 \<and>
   res (post_token cfg0 600000000 (store (post_token cfg0 9000 db2 (with_token alice_refresh)))
          (with_token alice_refresh)) =
     json 200 (NewAccessToken (generateAccessToken cfg0 600000000 alice_user))"
proof -
  let ?p = "\<lparr>p_userId = Some 1, p_name = None, p_isAdmin = JUndefined, p_iat = 5,
             p_exp = Some 604805\<rparr>"
  have none: "\<not> token_truthy (body_token alice)"
    by (simp add: alice_def)
  have tok: "body_token (with_token alice_refresh) = Some alice_refresh"
    by (simp add: with_token_def)
  have ver: "jwt_verify alice_refresh (REFRESH_TOKEN_SECRET cfg0) 9000 = Inr ?p"
    by (simp add: alice_refresh_def cfg0_def)
  have ex3: "exists_token db3 alice_refresh" and ex2: "exists_token db2 alice_refresh"
    by (simp_all add: exists_token_def RefreshToken_findOne_def db3_def db2_def)
  have gone: "User_findById db3 (p_userId ?p) = None"
    by (simp add: User_findById_def db3_def)
  have here: "User_findById db2 (p_userId ?p) = Some alice_user"
    by (simp add: User_findById_def db2_def alice_user_def)
  have fresh: "\<not> jwt_expired alice_refresh 600000000"
    by (simp add: alice_refresh_def)
  from none post_token_contract [of alice cfg0 9000 db2]
  have a: "res (post_token cfg0 9000 db2 alice) = sendStatus 401"
    by blast
  from tok ver ex3 gone post_token_contract [of "with_token alice_refresh" cfg0 9000 db3]
  have b: "res (post_token cfg0 9000 db3 (with_token alice_refresh)) = sendStatus 404"
    by blast
  from tok ver ex2 here fresh post_token_contract [of "with_token alice_refresh" cfg0 9000 db2]
  have c: "res (post_token cfg0 9000 db2 (with_token alice_refresh)) =
             json 200 (NewAccessToken (generateAccessToken cfg0 9000 alice_user)) \<and>
           store (post_token cfg0 9000 db2 (with_token alice_refresh)) = db2 \<and>
           res (post_token cfg0 600000000 (store (post_token cfg0 9000 db2 (with_token alice_refresh)))
                  (with_token alice_refresh)) =
             json 200 (NewAccessToken (generateAccessToken cfg0 600000000 alice_user))"
    by blast
  from none a ex3 b ex2 fresh c show ?thesis
    by blast
qed

text \<open>
  C2: a refresh request whose token string exists in the store but whose signature does
  not verify against the refresh secret is answered 403, and the row of that token string
  is deleted: it no longer exists afterwards. The users and the other rows are untouched.
\<close>

theorem post_token_invalid_signature:
  assumes "body_token b = Some t" and "token_truthy (Some t)" and "exists_token d t"
    and "\<not> jwt_signature_valid t (REFRESH_TOKEN_SECRET cfg)"
  shows "res (post_token cfg now d b) = sendStatus 403 \<and>
         \<not> exists_token (store (post_token cfg now d b)) t \<and>
         users (store (post_token cfg now d b)) = users d \<and>
         (\<forall>t'. t' \<noteq> t \<longrightarrow>
            refreshTokens (store (post_token cfg now d b)) t' = refreshTokens d t')"
proof -
  from assms(4) have "jwt_verify t (REFRESH_TOKEN_SECRET cfg) now = Inl JsonWebTokenError"
    by (rule jwt_verify_invalid)
  with assms have "post_token cfg now d b =
      reply (sendStatus 403) (d\<lparr>refreshTokens := (refreshTokens d)(t := None)\<rparr>) []"
    by (simp add: post_token_rejected)
  then show ?thesis
    by (simp add: exists_token_def RefreshToken_findOne_def)
qed

theorem post_token_invalid_signature_witness:
  "exists_token db4 forged \<and> \<not> jwt_signature_valid forged (REFRESH_TOKEN_SECRET cfg0) \<and>
   res (post_token cfg0 9000 db4 (with_token forged)) = sendStatus 403 \<and>
   \<not> exists_token (store (post_token cfg0 9000 db4 (with_token forged))) forged"
proof -
  have tok: "body_token (with_token forged) = Some forged" "token_truthy (Some forged)"
    by (simp_all add: with_token_def forged_def)
  have ex: "exists_token db4 forged"
    by (simp add: exists_token_def RefreshToken_findOne_def db4_def)
  have bad: "\<not> jwt_signature_valid forged (REFRESH_TOKEN_SECRET cfg0)"
    by (simp add: forged_def cfg0_def js_def)
  from ex bad post_token_invalid_signature [OF tok ex bad, of 9000] show ?thesis
    by blast
qed

text \<open>
  C3 as stated does not hold. It says that a stored token with a valid signature whose
  expiry has passed is answered 403 and that its row stays. The handler deletes the row
  on every verification error: at the second of its expiry alice's stored refresh token
  is answered 403 and is gone from the store.
\<close>

theorem post_token_expired_counterexample:
  "exists_token db2 alice_refresh \<and>
   jwt_signature_valid alice_refresh (REFRESH_TOKEN_SECRET cfg0) \<and>
   jwt_expired alice_refresh 604805000 \<and>
   status (res (post_token cfg0 604805000 db2 (with_token alice_refresh))) = 403 \<and>
   \<not> exists_token (store (post_token cfg0 604805000 db2 (with_token alice_refresh))) alice_refresh"
  by (simp add: store_defs handler_defs run_defs)

text \<open>
  C3, amended: a refresh request whose token string exists in the store, with a valid
  signature and an expiry that has passed, is answered 403, and the row of that token
  string is deleted, as it is for an invalid signature. The users and the other rows are
  untouched.
\<close>

theorem post_token_expired:
  assumes "body_token b = Some t" and "exists_token d t"
    and "jwt_signature_valid t (REFRESH_TOKEN_SECRET cfg)" and "jwt_expired t now"
  shows "res (post_token cfg now d b) = sendStatus 403 \<and>
         \<not> exists_token (store (post_token cfg now d b)) t \<and>
         users (store (post_token cfg now d b)) = users d \<and>
         (\<forall>t'. t' \<noteq> t \<longrightarrow>
            refreshTokens (store (post_token cfg now d b)) t' = refreshTokens d t')"
proof -
  from assms(3,4) have "jwt_verify t (REFRESH_TOKEN_SECRET cfg) now = Inl TokenExpiredError"
    by (rule jwt_verify_expired)
  moreover from assms(3) have "token_truthy (Some t)"
    by (rule signed_truthy)
  ultimately have "post_token cfg now d b =
      reply (sendStatus 403) (d\<lparr>refreshTokens := (refreshTokens d)(t := None)\<rparr>) []"
    using assms by (simp add: post_token_rejected)
  then show ?thesis
    by (simp add: exists_token_def RefreshToken_findOne_def)
qed

theorem post_token_expired_witness:
  "exists_token db2 alice_refresh \<and>
   jwt_signature_valid alice_refresh (REFRESH_TOKEN_SECRET cfg0) \<and>
   jwt_expired alice_refresh 700000000 \<and>
   res (post_token cfg0 700000000 db2 (with_token alice_refresh)) = sendStatus 403 \<and>
   \<not> exists_token (store (post_token cfg0 700000000 db2 (with_token alice_refresh))) alice_refresh"
proof -
  have tok: "body_token (with_token alice_refresh) = Some alice_refresh"
    by (simp add: with_token_def)
  have ex: "exists_token db2 alice_refresh"
    by (simp add: exists_token_def RefreshToken_findOne_def db2_def)
  have sig: "jwt_signature_valid alice_refresh (REFRESH_TOKEN_SECRET cfg0)"
    by (simp add: alice_refresh_def cfg0_def)
  have old: "jwt_expired alice_refresh 700000000"
    by (simp add: alice_refresh_def)
  from ex sig old post_token_expired [OF tok ex sig old] show ?thesis
    by blast
qed

text \<open>
  C10: logout answers 204 whether or not a row matched. For a token string \<open>T\<close> (a
  non-empty string) in the body, the store afterwards has no row for \<open>T\<close>, and a
  refresh with \<open>T\<close> on that store is answered 403 and changes nothing.
\<close>

theorem logout_revokes:
  "res (delete_logout d b) = sendStatus 204 \<and>
   (\<forall>T. body_token b = Some T \<and> token_truthy (Some T) \<longrightarrow>
      \<not> exists_token (store (delete_logout d b)) T \<and>
      res (post_token cfg now (store (delete_logout d b)) b) = sendStatus 403 \<and>
      store (post_token cfg now (store (delete_logout d b)) b) = store (delete_logout d b))"
proof (intro conjI allI impI)
  show "res (delete_logout d b) = sendStatus 204"
    by (simp add: delete_logout_def)
next
  fix T
  assume h: "body_token b = Some T \<and> token_truthy (Some T)"
  then show gone: "\<not> exists_token (store (delete_logout d b)) T"
    by (simp add: delete_logout_def RefreshToken_deleteOne_def exists_token_def
        RefreshToken_findOne_def)
  with h show "res (post_token cfg now (store (delete_logout d b)) b) = sendStatus 403"
    and "store (post_token cfg now (store (delete_logout d b)) b) = store (delete_logout d b)"
    by (simp_all add: post_token_unknown)
qed

theorem logout_revokes_witness:
  "exists_token db2 alice_refresh \<and> token_truthy (Some alice_refresh) \<and>
   res (delete_logout db2 (with_token alice_refresh)) = sendStatus 204 \<and>
   \<not> exists_token (store (delete_logout db2 (with_token alice_refresh))) alice_refresh \<and>
   res (post_token cfg0 9000 (store (delete_logout db2 (with_token alice_refresh)))
          (with_token alice_refresh)) = sendStatus 403 \<and>
   \<not> exists_token db1 alice_refresh \<and>
   res (delete_logout db1 (with_token alice_refresh)) = sendStatus 204 \<and>
   res (post_token cfg0 9000 (store (delete_logout db1 (with_token alice_refresh)))
          (with_token alice_refresh)) = sendStatus 403"
proof -
  have tok: "body_token (with_token alice_refresh) = Some alice_refresh \<and>
             token_truthy (Some alice_refresh)"
    by (simp add: with_token_def alice_refresh_def)
  have ex: "exists_token db2 alice_refresh" "\<not> exists_token db1 alice_refresh"
    by (simp_all add: exists_token_def RefreshToken_findOne_def db2_def db1_def)
  from tok ex logout_revokes [of db2 "with_token alice_refresh" cfg0 9000]
    logout_revokes [of db1 "with_token alice_refresh" cfg0 9000]
  show ?thesis
    by blast
qed


section \<open>The run of the scenario\<close>

lemma run_register:
  "post_register toy_bcrypt 1000 0 db0 alice =
     reply (json 201 (UserCreated ''User created successfully'' 1 (Some (js ''alice_01'')))) db1
       [BcryptHash (Some (js ''Passw0rd!'')) 10]"
  by (simp add: regex_defs store_defs handler_defs run_defs)

lemma run_login:
  "post_login toy_bcrypt cfg0 5000 db1 alice =
     reply (json 200 (LoggedIn alice_access alice_refresh 1 (js ''alice_01'') (JBool False))) db2
       [BcryptCompare (Some (js ''Passw0rd!'')) (js ''$2b$10$Passw0rd!'')]"
  by (simp add: regex_defs store_defs handler_defs run_defs)

lemma run_refresh:
  "post_token cfg0 9000 db2 (with_token alice_refresh) =
     reply (json 200 (NewAccessToken (generateAccessToken cfg0 9000 alice_user))) db2 []"
  by (simp add: regex_defs store_defs handler_defs run_defs)

section \<open>The patterns\<close>

lemma username_pattern: "usernameRegex_test (Some s) = spec_username_ok s"
  by (simp add: usernameRegex_test_def spec_username_ok_def ToString_def name_char_def
      list_all_iff)

lemma lookahead_ex: "lookahead P s \<Longrightarrow> \<exists>c \<in> set s. P c"
proof -
  assume "lookahead P s"
  then consider "list_ex P (takeWhile dot s)"
    | c cs where "dropWhile dot s = c # cs" "P c"
    by (auto simp: lookahead_def split: list.splits)
  then show ?thesis
  proof cases
    case 1
    then show ?thesis
      by (auto simp: list_ex_iff dest: set_takeWhileD)
  next
    case 2
    then have "c \<in> set (dropWhile dot s)"
      by simp
    then have "c \<in> set s"
      by (rule set_dropWhileD)
    with 2 show ?thesis
      by blast
  qed
qed

lemma password_pattern: "passwordRegex_test (Some s) \<Longrightarrow> spec_password_ok s"
  by (simp add: passwordRegex_test_def spec_password_ok_def ToString_def lookahead_ex)



lemma password_undefined: "\<not> passwordRegex_test None"
  by (simp add: regex_defs)

lemma username_undefined: "usernameRegex_test None"
  by (simp add: regex_defs)

section \<open>The branches of the register handler\<close>

lemma register_bad_username:
  "\<not> usernameRegex_test (body_name b) \<Longrightarrow>
   post_register B now salt d b =
     reply (json 400 (Error ''Username must be 3-20 characters (letters, numbers, underscores)'')) d []"
  by (simp add: post_register_def)

lemma register_bad_password:
  "usernameRegex_test (body_name b) \<Longrightarrow> \<not> passwordRegex_test (body_password b) \<Longrightarrow>
   post_register B now salt d b =
     reply (json 400 (Error ''Password must contain: 8+ chars, 1 uppercase, 1 lowercase, 1 number'')) d []"
  by (simp add: post_register_def)





section \<open>Register\<close>

text \<open>
  For a body whose \<open>name\<close> is a string, the handler does what the specification says of
  validation: a name outside the username rule, or a password that is missing or outside
  the password rule, is answered 400 and no user is created.
\<close>

lemma register_rejects_invalid:
  assumes "body_name b = Some U"
    and "\<not> spec_username_ok U \<or> body_password b = None \<or>
         (\<exists>P. body_password b = Some P \<and> \<not> spec_password_ok P)"
  shows "status (res (post_register B now salt d b)) = 400 \<and>
         store (post_register B now salt d b) = d"
proof (cases "usernameRegex_test (body_name b)")
  case False
  then show ?thesis
    by (simp add: register_bad_username)
next
  case True
  with assms(1) have "spec_username_ok U"
    by (simp add: username_pattern)
  with assms(2) have "\<not> passwordRegex_test (body_password b)"
    using password_pattern password_undefined by auto
  with True show ?thesis
    by (simp add: register_bad_password)
qed

text \<open>
  C6: every register request whose username does not match the pattern should fail with
  400. A body without \<open>name\<close> and with a valid password passes the username test,
  because \<open>test\<close> reads \<open>undefined\<close> as the string of that name; the save then fails on
  the required \<open>name\<close> and the response is 500. No user is created.
\<close>

theorem register_missing_name:
  "body_name no_name = None \<and>
   post_register toy_bcrypt 1000 0 db0 no_name =
     reply (json 500 (Error ''Server error during registration'')) db0
       [BcryptHash (Some (js ''Passw0rd1'')) 10]"
  by (simp add: regex_defs store_defs handler_defs run_defs no_name_def)




section \<open>Login\<close>

lemma login_unknown_user:
  "User_findOne d (body_name b) = None \<Longrightarrow>
   post_login B cfg now d b =
     reply (json 401 (Error ''Invalid credentials'')) d
       [BcryptCompare (Some (js ''dummy'')) dummy_hash]"
  by (simp add: post_login_def)

lemma login_wrong_password:
  "User_findOne d (body_name b) = Some u \<Longrightarrow> body_password b = Some p \<Longrightarrow>
   \<not> bc_compare B p (password u) \<Longrightarrow>
   post_login B cfg now d b =
     reply (json 401 (Error ''Invalid credentials'')) d [BcryptCompare (Some p) (password u)]"
  by (simp add: post_login_def bcrypt_compare_def)

lemma login_ok:
  assumes "status (res (post_login B cfg now d b)) = 200"
  obtains u d' where "User_findOne d (body_name b) = Some u"
    and "post_login B cfg now d b =
           reply (json 200 (LoggedIn (generateAccessToken cfg now u)
                    (jwt_sign (Some (u_id u)) None JUndefined (REFRESH_TOKEN_SECRET cfg)
                       (7 * 24 * 60 * 60) now)
                    (u_id u) (name u) (js_or (user_isAdmin u) (JBool False))))
             d' [BcryptCompare (body_password b) (password u)]"
  using assms
  by (auto simp: post_login_def Let_def split: option.splits sum.splits if_splits)

lemma findOne_name: "User_findOne d x = Some u \<Longrightarrow> x = Some (name u)"
  by (cases x) (auto simp: User_findOne_def dest: find_Some_iff [THEN iffD1])

lemma access_token_payload:
  "generateAccessToken cfg now u =
     Signed \<lparr>p_userId = Some (u_id u), p_name = Some (name u), p_isAdmin = JBool False,
             p_iat = now div 1000, p_exp = Some (now div 1000 + 900)\<rparr> (ACCESS_TOKEN_SECRET cfg)"
  by (simp add: generateAccessToken_def jwt_sign_def js_or_def user_isAdmin_def)

text \<open>
  C5: a login with a username that is not stored and a login with a stored username and
  a wrong password get the same response, 401 with the payload \<open>Invalid credentials\<close>,
  and neither changes the store. Each makes exactly one call of \<open>bcrypt.compare\<close>: the
  first on the constant \<open>dummy\<close> and the fixed dummy hash, the second on the supplied
  password and the stored hash.
\<close>

theorem login_failures_identical:
  assumes "User_findOne d (body_name b1) = None"
    and "User_findOne d (body_name b2) = Some u" and "body_password b2 = Some p"
    and "\<not> bc_compare B p (password u)"
  shows "res (post_login B cfg now d b1) = json 401 (Error ''Invalid credentials'') \<and>
         res (post_login B cfg now d b2) = res (post_login B cfg now d b1) \<and>
         store (post_login B cfg now d b1) = d \<and> store (post_login B cfg now d b2) = d \<and>
         work (post_login B cfg now d b1) = [BcryptCompare (Some (js ''dummy'')) dummy_hash] \<and>
         work (post_login B cfg now d b2) = [BcryptCompare (Some p) (password u)]"
  using assms by (simp add: login_unknown_user login_wrong_password)

theorem login_failures_identical_witness:
  "User_findOne db1 (body_name bob) = None \<and>
   User_findOne db1 (body_name alice_wrong) = Some alice_user \<and>
   \<not> bc_compare toy_bcrypt (js ''Passw0rd?'') (password alice_user) \<and>
   res (post_login toy_bcrypt cfg0 5000 db1 bob) = json 401 (Error ''Invalid credentials'') \<and>
   res (post_login toy_bcrypt cfg0 5000 db1 alice_wrong) = res (post_login toy_bcrypt cfg0 5000 db1 bob) \<and>
   work (post_login toy_bcrypt cfg0 5000 db1 bob) = [BcryptCompare (Some (js ''dummy'')) dummy_hash] \<and>
   work (post_login toy_bcrypt cfg0 5000 db1 alice_wrong) =
     [BcryptCompare (Some (js ''Passw0rd?'')) (password alice_user)]"
proof -
  have a: "User_findOne db1 (body_name bob) = None"
    by (simp add: User_findOne_def db1_def bob_def alice_user_def js_def)
  have b: "User_findOne db1 (body_name alice_wrong) = Some alice_user"
    by (simp add: User_findOne_def db1_def alice_wrong_def alice_user_def)
  have c: "body_password alice_wrong = Some (js ''Passw0rd?'')"
    by (simp add: alice_wrong_def)
  have e: "\<not> bc_compare toy_bcrypt (js ''Passw0rd?'') (password alice_user)"
    by (simp add: toy_bcrypt_def alice_user_def js_def)
  from a b e login_failures_identical [OF a b c e, of cfg0 5000] show ?thesis
    by simp
qed

text \<open>
  When login answers 200, the access token of the body decodes, and verifies under the
  access secret, to the id and the name of the user found by the requested name.
\<close>

lemma login_token_id_and_name:
  assumes "status (res (post_login B cfg now d b)) = 200"
  shows "\<exists>u at rt. User_findOne d (body_name b) = Some u \<and> body_name b = Some (name u) \<and>
           sent (res (post_login B cfg now d b)) = LoggedIn at rt (u_id u) (name u) (JBool False) \<and>
           map_option p_userId (jwt_decode at) = Some (Some (u_id u)) \<and>
           map_option p_name (jwt_decode at) = Some (Some (name u)) \<and>
           jwt_verify at (ACCESS_TOKEN_SECRET cfg) now = Inr (the (jwt_decode at))"
proof -
  from assms obtain u d' where u: "User_findOne d (body_name b) = Some u"
    and run: "post_login B cfg now d b =
           reply (json 200 (LoggedIn (generateAccessToken cfg now u)
                    (jwt_sign (Some (u_id u)) None JUndefined (REFRESH_TOKEN_SECRET cfg)
                       (7 * 24 * 60 * 60) now)
                    (u_id u) (name u) (js_or (user_isAdmin u) (JBool False))))
             d' [BcryptCompare (body_password b) (password u)]"
    by (rule login_ok)
  from u have "body_name b = Some (name u)"
    by (rule findOne_name)
  moreover have "jwt_verify (generateAccessToken cfg now u) (ACCESS_TOKEN_SECRET cfg) now =
      Inr (the (jwt_decode (generateAccessToken cfg now u)))"
    by (simp add: access_token_payload)
  ultimately show ?thesis
    using u run by (simp add: access_token_payload js_or_def user_isAdmin_def)
qed

text \<open>
  C8: the access token of a successful login should decode to the user's id, name and
  admin flag. Alice registers with \<open>isAdmin\<close> true, which the handler passes to the new
  document and the schema drops; her login is answered 200, and the token and the body
  both carry \<open>isAdmin = false\<close>.
\<close>

theorem login_admin_flag_lost:
  "body_isAdmin alice = JBool True \<and>
   post_register toy_bcrypt 1000 0 db0 alice =
     reply (json 201 (UserCreated ''User created successfully'' 1 (Some (js ''alice_01'')))) db1
       [BcryptHash (Some (js ''Passw0rd!'')) 10] \<and>
   res (post_login toy_bcrypt cfg0 5000 db1 alice) =
     json 200 (LoggedIn alice_access alice_refresh 1 (js ''alice_01'') (JBool False)) \<and>
   map_option p_isAdmin (jwt_decode alice_access) = Some (JBool False)"
proof -
  have "body_isAdmin alice = JBool True"
    by (simp add: alice_def)
  moreover have "map_option p_isAdmin (jwt_decode alice_access) = Some (JBool False)"
    by (simp add: alice_access_def)
  ultimately show ?thesis
    by (simp add: run_register run_login)
qed

text \<open>
  C4: the outcome of register is the same whatever \<open>isAdmin\<close> the body carries; a
  stored user has no admin flag to read; every access token that login or refresh
  returns, and the flag of the login body, carry \<open>isAdmin = false\<close>.
\<close>

theorem isAdmin_never_stored:
  "post_register B now salt d (b\<lparr>body_isAdmin := x\<rparr>) = post_register B now salt d b \<and>
   (\<forall>u \<in> set (users (store (post_register B now salt d b))). user_isAdmin u = JUndefined) \<and>
   (\<forall>at rt i n a. sent (res (post_login B cfg now d b)) = LoggedIn at rt i n a \<longrightarrow>
      a = JBool False \<and> map_option p_isAdmin (jwt_decode at) = Some (JBool False)) \<and>
   (\<forall>at. sent (res (post_token cfg now d b)) = NewAccessToken at \<longrightarrow>
      map_option p_isAdmin (jwt_decode at) = Some (JBool False))"
proof (intro conjI ballI allI impI)
  show "post_register B now salt d (b\<lparr>body_isAdmin := x\<rparr>) = post_register B now salt d b"
    by (simp add: post_register_def new_User_def Let_def split: option.splits sum.splits)
next
  fix u
  show "user_isAdmin u = JUndefined"
    by (simp add: user_isAdmin_def)
next
  fix at rt i n a
  assume "sent (res (post_login B cfg now d b)) = LoggedIn at rt i n a"
  then have "a = JBool False \<and> at \<in> range (generateAccessToken cfg now)"
    by (auto simp: post_login_def Let_def js_or_def user_isAdmin_def
        split: option.splits sum.splits if_splits)
  then show "a = JBool False" "map_option p_isAdmin (jwt_decode at) = Some (JBool False)"
    by (auto simp: access_token_payload)
next
  fix at
  assume "sent (res (post_token cfg now d b)) = NewAccessToken at"
  then have "at \<in> range (generateAccessToken cfg now)"
    by (auto simp: post_token_def Let_def sendStatus_def
        split: option.splits sum.splits if_splits)
  then show "map_option p_isAdmin (jwt_decode at) = Some (JBool False)"
    by (auto simp: access_token_payload)
qed

theorem isAdmin_never_stored_witness:
  "body_isAdmin alice = JBool True \<and>
   post_register toy_bcrypt 1000 0 db0 (alice\<lparr>body_isAdmin := JUndefined\<rparr>) =
     post_register toy_bcrypt 1000 0 db0 alice \<and>
   alice_user \<in> set (users (store (post_register toy_bcrypt 1000 0 db0 alice))) \<and>
   user_isAdmin alice_user = JUndefined \<and>
   sent (res (post_login toy_bcrypt cfg0 5000 db1 alice)) =
     LoggedIn alice_access alice_refresh 1 (js ''alice_01'') (JBool False) \<and>
   map_option p_isAdmin (jwt_decode alice_access) = Some (JBool False) \<and>
   sent (res (post_token cfg0 9000 db2 (with_token alice_refresh))) =
     NewAccessToken (generateAccessToken cfg0 9000 alice_user) \<and>
   map_option p_isAdmin (jwt_decode (generateAccessToken cfg0 9000 alice_user)) = Some (JBool False)"
proof -
  have adm: "body_isAdmin alice = JBool True"
    by (simp add: alice_def)
  have reg: "alice_user \<in> set (users (store (post_register toy_bcrypt 1000 0 db0 alice)))"
    by (simp add: run_register db1_def)
  have login: "sent (res (post_login toy_bcrypt cfg0 5000 db1 alice)) =
      LoggedIn alice_access alice_refresh 1 (js ''alice_01'') (JBool False)"
    by (simp add: run_login)
  have refresh: "sent (res (post_token cfg0 9000 db2 (with_token alice_refresh))) =
      NewAccessToken (generateAccessToken cfg0 9000 alice_user)"
    by (simp add: run_refresh)
  note reg_run = isAdmin_never_stored [where B = toy_bcrypt and now = 1000 and salt = 0
      and d = db0 and b = alice and x = JUndefined and cfg = cfg0]
  note login_run = isAdmin_never_stored [where B = toy_bcrypt and now = 5000 and salt = 0
      and d = db1 and b = alice and x = JUndefined and cfg = cfg0]
  note refresh_run = isAdmin_never_stored [where B = toy_bcrypt and now = 9000 and salt = 0
      and d = db2 and b = "with_token alice_refresh" and x = JUndefined and cfg = cfg0]
  from reg_run have same: "post_register toy_bcrypt 1000 0 db0 (alice\<lparr>body_isAdmin := JUndefined\<rparr>) =
      post_register toy_bcrypt 1000 0 db0 alice"
    by (rule conjunct1)
  from reg reg_run have none: "user_isAdmin alice_user = JUndefined"
    by blast
  from login login_run
  have at: "map_option p_isAdmin (jwt_decode alice_access) = Some (JBool False)"
    by blast
  from refresh refresh_run
  have at': "map_option p_isAdmin (jwt_decode (generateAccessToken cfg0 9000 alice_user)) =
      Some (JBool False)"
    by blast
  from adm same reg none login at refresh at' show ?thesis
    by blast
qed

section \<open>The guard of the resource server\<close>

text \<open>
  C9: the guard takes no store and depends on the request through its bearer token only.
  Without a token it answers 401; with a token whose signature is valid under the access
  secret and whose expiry has passed, 401; with a token whose signature is not valid, 403;
  with a valid, unexpired token it admits the request with the user id, the name and the
  admin flag of the token's claims attached.
\<close>

theorem authenticateToken_cases:
  "(\<not> token_truthy (bearer req) \<longrightarrow>
      authenticateToken cfg now req = Respond (json 401 (Error ''Missing authentication token''))) \<and>
   (\<forall>t. bearer req = Some t \<and> token_truthy (Some t) \<longrightarrow>
      (jwt_signature_valid t (ACCESS_TOKEN_SECRET cfg) \<and> jwt_expired t now \<longrightarrow>
         authenticateToken cfg now req = Respond (json 401 (Error ''Token expired''))) \<and>
      (\<not> jwt_signature_valid t (ACCESS_TOKEN_SECRET cfg) \<longrightarrow>
         authenticateToken cfg now req = Respond (json 403 (Error ''Invalid token''))) \<and>
      (jwt_signature_valid t (ACCESS_TOKEN_SECRET cfg) \<and> \<not> jwt_expired t now \<longrightarrow>
         (\<exists>p. jwt_decode t = Some p \<and>
              authenticateToken cfg now req =
                Next \<lparr>ru_userId = p_userId p, ru_name = p_name p,
                      ru_isAdmin = js_or (p_isAdmin p) (JBool False)\<rparr>))) \<and>
   (\<forall>req'. bearer req' = bearer req \<longrightarrow>
      authenticateToken cfg now req' = authenticateToken cfg now req)"
proof (intro conjI allI impI)
  assume "\<not> token_truthy (bearer req)"
  then show "authenticateToken cfg now req =
      Respond (json 401 (Error ''Missing authentication token''))"
    by (simp add: authenticateToken_def)
next
  fix t
  assume h: "bearer req = Some t \<and> token_truthy (Some t)"
  {
    assume "jwt_signature_valid t (ACCESS_TOKEN_SECRET cfg) \<and> jwt_expired t now"
    then have "jwt_verify t (ACCESS_TOKEN_SECRET cfg) now = Inl TokenExpiredError"
      by (simp add: jwt_verify_expired)
    with h show "authenticateToken cfg now req = Respond (json 401 (Error ''Token expired''))"
      by (simp add: authenticateToken_def)
  }
  {
    assume "\<not> jwt_signature_valid t (ACCESS_TOKEN_SECRET cfg)"
    then have "jwt_verify t (ACCESS_TOKEN_SECRET cfg) now = Inl JsonWebTokenError"
      by (rule jwt_verify_invalid)
    with h show "authenticateToken cfg now req = Respond (json 403 (Error ''Invalid token''))"
      by (simp add: authenticateToken_def)
  }
  assume "jwt_signature_valid t (ACCESS_TOKEN_SECRET cfg) \<and> \<not> jwt_expired t now"
  then obtain p where "jwt_decode t = Some p"
    and "jwt_verify t (ACCESS_TOKEN_SECRET cfg) now = Inr p"
    using jwt_verify_valid by blast
  with h show "\<exists>p. jwt_decode t = Some p \<and>
      authenticateToken cfg now req =
        Next \<lparr>ru_userId = p_userId p, ru_name = p_name p,
              ru_isAdmin = js_or (p_isAdmin p) (JBool False)\<rparr>"
    by (simp add: authenticateToken_def)
next
  fix req'
  assume "bearer req' = bearer req"
  then show "authenticateToken cfg now req' = authenticateToken cfg now req"
    by (simp add: authenticateToken_def)
qed


theorem authenticateToken_cases_witness:
  "\<not> token_truthy (bearer no_header) \<and>
   authenticateToken cfg0 9000 no_header =
     Respond (json 401 (Error ''Missing authentication token'')) \<and>
   jwt_signature_valid alice_access (ACCESS_TOKEN_SECRET cfg0) \<and> jwt_expired alice_access 905000 \<and>
   authenticateToken cfg0 905000 (bearer_header alice_access) =
     Respond (json 401 (Error ''Token expired'')) \<and>
   \<not> jwt_signature_valid alice_refresh (ACCESS_TOKEN_SECRET cfg0) \<and>
   authenticateToken cfg0 9000 (bearer_header alice_refresh) =
     Respond (json 403 (Error ''Invalid token'')) \<and>
   \<not> jwt_expired alice_access 9000 \<and>
   authenticateToken cfg0 9000 (bearer_header alice_access) =
     Next \<lparr>ru_userId = Some 1, ru_name = Some (js ''alice_01''), ru_isAdmin = JBool False\<rparr>"
proof -
  have none: "\<not> token_truthy (bearer no_header)"
    by (simp add: bearer_def no_header_def)
  have acc: "bearer (bearer_header alice_access) = Some alice_access \<and>
             token_truthy (Some alice_access)"
    by (simp add: bearer_def bearer_header_def alice_access_def)
  have ref: "bearer (bearer_header alice_refresh) = Some alice_refresh \<and>
             token_truthy (Some alice_refresh)"
    by (simp add: bearer_def bearer_header_def alice_refresh_def)
  have sig: "jwt_signature_valid alice_access (ACCESS_TOKEN_SECRET cfg0)"
    by (simp add: alice_access_def cfg0_def)
  have bad: "\<not> jwt_signature_valid alice_refresh (ACCESS_TOKEN_SECRET cfg0)"
    by (simp add: alice_refresh_def cfg0_def js_def)
  have old: "jwt_expired alice_access 905000" and young: "\<not> jwt_expired alice_access 9000"
    by (simp_all add: alice_access_def)
  have dec: "jwt_decode alice_access =
      Some \<lparr>p_userId = Some 1, p_name = Some (js ''alice_01''), p_isAdmin = JBool False,
            p_iat = 5, p_exp = Some 905\<rparr>"
    by (simp add: alice_access_def)
  from none authenticateToken_cases [of no_header cfg0 9000]
  have a: "authenticateToken cfg0 9000 no_header =
      Respond (json 401 (Error ''Missing authentication token''))"
    by blast
  from acc sig old authenticateToken_cases [of "bearer_header alice_access" cfg0 905000]
  have b: "authenticateToken cfg0 905000 (bearer_header alice_access) =
      Respond (json 401 (Error ''Token expired''))"
    by blast
  from ref bad authenticateToken_cases [of "bearer_header alice_refresh" cfg0 9000]
  have c: "authenticateToken cfg0 9000 (bearer_header alice_refresh) =
      Respond (json 403 (Error ''Invalid token''))"
    by blast
  from acc sig young authenticateToken_cases [of "bearer_header alice_access" cfg0 9000]
  have "\<exists>p. jwt_decode alice_access = Some p \<and>
          authenticateToken cfg0 9000 (bearer_header alice_access) =
            Next \<lparr>ru_userId = p_userId p, ru_name = p_name p,
                  ru_isAdmin = js_or (p_isAdmin p) (JBool False)\<rparr>"
    by blast
  with dec have e: "authenticateToken cfg0 9000 (bearer_header alice_access) =
      Next \<lparr>ru_userId = Some 1, ru_name = Some (js ''alice_01''), ru_isAdmin = JBool False\<rparr>"
    by (auto simp: js_or_def)
  from none a sig old b bad c young e show ?thesis
    by blast
qed

end
